theory Spec2Isabelle
  imports
    Complex_Main
    "HOL-Library.Char_ord"
    "HOL-Library.List_Lexorder"
begin

section \<open>The fitness log: data model\<close>

text \<open>
  The program keeps one SQLite table, \<^verbatim>\<open>fitness_log\<close>, and reaches it through the five
  methods of \<^verbatim>\<open>FitnessTracker\<close> in \<^verbatim>\<open>main.py\<close>. A row of the table carries the eight
  columns of the \<^verbatim>\<open>CREATE TABLE\<close> statement. \<^verbatim>\<open>TEXT\<close> values are byte strings, the
  UTF-8 encoding of the Python \<^verbatim>\<open>str\<close> (SQLite compares them with \<^verbatim>\<open>memcmp\<close>, which is
  the lexicographic order on \<open>char list\<close>; a \<^verbatim>\<open>str\<close> with no UTF-8 encoding, such as a
  lone surrogate, is outside this model: binding it raises \<^verbatim>\<open>UnicodeEncodeError\<close>).
  \<^verbatim>\<open>INTEGER\<close> values are integers, optional columns hold \<open>None\<close> for \<^verbatim>\<open>NULL\<close>. The
  \<^verbatim>\<open>ran\<close> column stores Python's \<^verbatim>\<open>True\<close>/\<^verbatim>\<open>False\<close> as 1/0 and is kept as a \<open>bool\<close>.
  \<^verbatim>\<open>REAL\<close> values are modelled by \<open>real\<close>: the rounding of IEEE doubles (and NaN, which
  SQLite stores as \<^verbatim>\<open>NULL\<close>) is outside this model.
\<close>

record row =
  row_id :: int
  row_date :: string
  row_weight :: real
  row_ran :: bool
  row_distance :: "real option"
  row_duration :: "int option"
  row_notes :: "string option"
  row_created_at :: string

text \<open>
  The table: its rows, and the \<^verbatim>\<open>AUTOINCREMENT\<close> counter that SQLite keeps in
  \<^verbatim>\<open>sqlite_sequence\<close> (the largest rowid ever handed out). The database file either has the
  table or does not have it yet.
\<close>

record fitness_log =
  rows :: "row list"
  seq :: int

type_synonym database = "fitness_log option"

text \<open>
  What the program reads from outside the database at a call: whether the engine can open
  the file (\<open>open_error\<close>, the message of the \<^verbatim>\<open>sqlite3.Error\<close> raised by
  \<^verbatim>\<open>connect\<close> or while the statement is prepared), whether running or committing the
  statement fails (\<open>exec_error\<close>: disk full, I/O error, lock), the engine's
  \<^verbatim>\<open>CURRENT_TIMESTAMP\<close>, and the engine's answer to
  \<^verbatim>\<open>date('now', '-N days')\<close> as a function of the integer \<open>N\<close> that
  \<^verbatim>\<open>'-{} days'.format(days)\<close> puts into the statement (\<open>None\<close> is SQL \<^verbatim>\<open>NULL\<close>, which
  is what the engine answers for a negative \<open>N\<close>, whose text is \<^verbatim>\<open>'--5 days'\<close>, and for
  a result outside its calendar).
\<close>

record world =
  open_error :: "string option"
  exec_error :: "string option"
  current_timestamp :: string
  date_now_minus :: "int \<Rightarrow> string option"

text \<open>
  The exceptions a method can end with. \<^verbatim>\<open>sqlite3.Error\<close> carries the engine's message;
  \<^verbatim>\<open>OverflowError\<close> is what the \<^verbatim>\<open>sqlite3\<close> module raises when a Python \<^verbatim>\<open>int\<close>
  bound to a \<^verbatim>\<open>?\<close> does not fit SQLite's signed 64-bit \<^verbatim>\<open>INTEGER\<close>; it is not a
  \<^verbatim>\<open>sqlite3.Error\<close>.
\<close>

datatype py_exception = Sqlite_Error string | Overflow_Error

definition fits_int64 :: "int \<Rightarrow> bool" where
  "fits_int64 i = (- (2 ^ 63) \<le> i \<and> i < 2 ^ 63)"

definition bindable :: "int option \<Rightarrow> bool" where
  "bindable v = (case v of None \<Rightarrow> True | Some i \<Rightarrow> fits_int64 i)"

section \<open>The statements\<close>

subsection \<open>Opening the table\<close>

text \<open>
  Every method starts with \<^verbatim>\<open>sqlite3.connect\<close> and prepares one statement on
  \<^verbatim>\<open>fitness_log\<close>; both fail with a \<^verbatim>\<open>sqlite3.Error\<close> before any parameter is bound.
\<close>

definition open_table :: "world \<Rightarrow> database \<Rightarrow> py_exception + fitness_log" where
  "open_table w db =
     (case open_error w of
        Some msg \<Rightarrow> Inl (Sqlite_Error msg)
      | None \<Rightarrow>
          (case db of
             None \<Rightarrow> Inl (Sqlite_Error ''no such table: fitness_log'')
           | Some t \<Rightarrow> Inr t))"

subsection \<open>\<^verbatim>\<open>init_database\<close>\<close>

definition empty_log :: fitness_log where
  "empty_log = \<lparr>rows = [], seq = 0\<rparr>"

text \<open>
  \<^verbatim>\<open>CREATE TABLE IF NOT EXISTS fitness_log (...)\<close>, then \<^verbatim>\<open>commit\<close>. Nothing catches
  a \<^verbatim>\<open>sqlite3.Error\<close> here.
\<close>

definition init_database :: "world \<Rightarrow> database \<Rightarrow> py_exception + database" where
  "init_database w db =
     (case open_error w of
        Some msg \<Rightarrow> Inl (Sqlite_Error msg)
      | None \<Rightarrow>
          (case exec_error w of
             Some msg \<Rightarrow> Inl (Sqlite_Error msg)
           | None \<Rightarrow>
               (case db of
                  None \<Rightarrow> Inr (Some empty_log)
                | Some t \<Rightarrow> Inr (Some t))))"

subsection \<open>\<^verbatim>\<open>add_entry\<close>\<close>

text \<open>
  The rowid an \<^verbatim>\<open>AUTOINCREMENT\<close> table gives the next row: one more than the largest
  rowid ever used. At \<open>2^63 - 1\<close> the engine refuses the insert.
\<close>

definition max_rowid :: "fitness_log \<Rightarrow> int" where
  "max_rowid t = foldr max (map row_id (rows t)) (seq t)"

text \<open>
  \<^verbatim>\<open>INSERT OR REPLACE INTO fitness_log (date, weight, ran, distance, duration, notes)
  VALUES (?, ?, ?, ?, ?, ?)\<close>: the rows that conflict with the new one on the
  \<^verbatim>\<open>UNIQUE\<close> column \<^verbatim>\<open>date\<close> are deleted, and the new row is inserted with a fresh
  \<^verbatim>\<open>id\<close> and with \<^verbatim>\<open>created_at\<close> at its default, \<^verbatim>\<open>CURRENT_TIMESTAMP\<close>.
\<close>

definition insert_or_replace ::
  "world \<Rightarrow> database \<Rightarrow> string \<Rightarrow> real \<Rightarrow> bool \<Rightarrow> real option \<Rightarrow> int option \<Rightarrow> string option
     \<Rightarrow> py_exception + database" where
  "insert_or_replace w db date weight ran' distance duration notes =
     (case open_table w db of
        Inl e \<Rightarrow> Inl e
      | Inr t \<Rightarrow>
          if \<not> bindable duration then Inl Overflow_Error
          else
            (case exec_error w of
               Some msg \<Rightarrow> Inl (Sqlite_Error msg)
             | None \<Rightarrow>
                 if max_rowid t \<ge> 2 ^ 63 - 1
                 then Inl (Sqlite_Error ''database or disk is full'')
                 else Inr (Some
                   \<lparr>rows = filter (\<lambda>r. row_date r \<noteq> date) (rows t) @
                      [\<lparr>row_id = max_rowid t + 1, row_date = date, row_weight = weight,
                        row_ran = ran', row_distance = distance, row_duration = duration,
                        row_notes = notes, row_created_at = current_timestamp w\<rparr>],
                    seq = max_rowid t + 1\<rparr>)))"

text \<open>
  \<^verbatim>\<open>add_entry\<close> wraps the statement in \<^verbatim>\<open>try\<close> ... \<^verbatim>\<open>except sqlite3.Error\<close>: it returns
  \<^verbatim>\<open>True\<close> after the commit, and prints \<^verbatim>\<open>Database error: ...\<close> and returns \<^verbatim>\<open>False\<close>
  on a \<^verbatim>\<open>sqlite3.Error\<close>; any other exception leaves the method. The result is the
  returned boolean, the lines printed, and the database afterwards.
\<close>

definition add_entry ::
  "world \<Rightarrow> database \<Rightarrow> string \<Rightarrow> real \<Rightarrow> bool \<Rightarrow> real option \<Rightarrow> int option \<Rightarrow> string option
     \<Rightarrow> py_exception + (bool \<times> string list \<times> database)" where
  "add_entry w db date weight ran' distance duration notes =
     (case insert_or_replace w db date weight ran' distance duration notes of
        Inr db' \<Rightarrow> Inr (True, [], db')
      | Inl (Sqlite_Error msg) \<Rightarrow> Inr (False, [''Database error: '' @ msg], db)
      | Inl Overflow_Error \<Rightarrow> Inl Overflow_Error)"

subsection \<open>\<^verbatim>\<open>get_recent_entries\<close>\<close>


definition order_by_date_desc :: "row list \<Rightarrow> row list" where
  "order_by_date_desc rs = rev (sort_key row_date rs)"

definition sql_limit :: "int \<Rightarrow> 'a list \<Rightarrow> 'a list" where
  "sql_limit n xs = (if n < 0 then xs else take (nat n) xs)"

type_synonym entry = "string \<times> real \<times> bool \<times> real option \<times> int option \<times> string option"

definition entry_of :: "row \<Rightarrow> entry" where
  "entry_of r =
     (row_date r, row_weight r, row_ran r, row_distance r, row_duration r, row_notes r)"

text \<open>
  \<^verbatim>\<open>SELECT date, weight, ran, distance, duration, notes FROM fitness_log
  ORDER BY date DESC LIMIT ?\<close> with \<^verbatim>\<open>limit\<close> bound to the \<^verbatim>\<open>?\<close>.
\<close>

definition get_recent_entries :: "world \<Rightarrow> database \<Rightarrow> int \<Rightarrow> py_exception + entry list" where
  "get_recent_entries w db limit =
     (case open_table w db of
        Inl e \<Rightarrow> Inl e
      | Inr t \<Rightarrow>
          if \<not> fits_int64 limit then Inl Overflow_Error
          else
            (case exec_error w of
               Some msg \<Rightarrow> Inl (Sqlite_Error msg)
             | None \<Rightarrow> Inr (map entry_of (sql_limit limit (order_by_date_desc (rows t))))))"

subsection \<open>The window filter\<close>


subsection \<open>\<^verbatim>\<open>get_weight_progress\<close>\<close>


subsection \<open>\<^verbatim>\<open>get_running_stats\<close>\<close>










section \<open>A calendar for the examples\<close>

text \<open>
  The theorems below hold for every \<open>world\<close>. The examples need one: the engine on a given
  day. \<open>civil_from_days\<close> and \<open>days_from_civil\<close> convert between a day number (days since
  1970-01-01) and a date of the proleptic Gregorian calendar, which is the engine's;
  \<open>iso_date\<close> prints a date as the engine does, \<^verbatim>\<open>YYYY-MM-DD\<close>. \<open>engine_date\<close> is the
  engine's \<^verbatim>\<open>date('now', '-N days')\<close> on the day \<open>today\<close> for \<open>0 \<le> N\<close> and a result in
  the years 0000 to 9999, and \<^verbatim>\<open>NULL\<close> for a negative \<open>N\<close>. Results before the year 0000,
  which the engine prints with a signed year, are not needed by the examples and are given
  as \<^verbatim>\<open>NULL\<close> here.
\<close>

definition days_from_civil :: "int \<Rightarrow> int \<Rightarrow> int \<Rightarrow> int" where
  "days_from_civil y m d =
     (let y' = (if m \<le> 2 then y - 1 else y);
          era = y' div 400;
          yoe = y' mod 400;
          doy = (153 * (if m > 2 then m - 3 else m + 9) + 2) div 5 + d - 1;
          doe = yoe * 365 + yoe div 4 - yoe div 100 + doy
      in era * 146097 + doe - 719468)"

definition civil_from_days :: "int \<Rightarrow> int \<times> int \<times> int" where
  "civil_from_days z =
     (let z' = z + 719468;
          era = z' div 146097;
          doe = z' mod 146097;
          yoe = (doe - doe div 1460 + doe div 36524 - doe div 146096) div 365;
          doy = doe - (365 * yoe + yoe div 4 - yoe div 100);
          mp = (5 * doy + 2) div 153;
          d = doy - (153 * mp + 2) div 5 + 1;
          m = (if mp < 10 then mp + 3 else mp - 9);
          y = yoe + era * 400
      in (if m \<le> 2 then y + 1 else y, m, d))"

definition digit :: "int \<Rightarrow> char" where
  "digit k = ''0123456789'' ! nat (k mod 10)"

definition iso_date :: "int \<times> int \<times> int \<Rightarrow> string" where
  "iso_date ymd =
     (case ymd of (y, m, d) \<Rightarrow>
        [digit (y div 1000), digit (y div 100), digit (y div 10), digit y, CHR ''-'',
         digit (m div 10), digit m, CHR ''-'', digit (d div 10), digit d])"

definition engine_date :: "int \<times> int \<times> int \<Rightarrow> int \<Rightarrow> string option" where
  "engine_date today n =
     (case today of (y, m, d) \<Rightarrow>
        (let ymd = civil_from_days (days_from_civil y m d - n)
         in if 0 \<le> n \<and> 0 \<le> fst ymd \<and> fst ymd \<le> 9999 then Some (iso_date ymd) else None))"

text \<open>The engine on a day, at a time, with storage that works.\<close>

definition world_at :: "int \<times> int \<times> int \<Rightarrow> string \<Rightarrow> world" where
  "world_at today hms =
     \<lparr>open_error = None, exec_error = None,
      current_timestamp = iso_date today @ '' '' @ hms,
      date_now_minus = engine_date today\<rparr>"

section \<open>Observations and the spec's window\<close>

text \<open>The rows a database holds for a date: none when the table does not exist.\<close>

definition records_for :: "database \<Rightarrow> string \<Rightarrow> row list" where
  "records_for db d =
     (case db of None \<Rightarrow> [] | Some t \<Rightarrow> filter (\<lambda>r. row_date r = d) (rows t))"


section \<open>Example data\<close>

definition june_15 :: world where
  "june_15 = world_at (2024, 6, 15) ''10:00:00''"

definition june_16 :: world where
  "june_16 = world_at (2024, 6, 16) ''09:30:00''"


text \<open>The table after a first entry for 2024-06-01, and after entries for that date again.\<close>

definition log_a :: database where
  "log_a = Some \<lparr>rows =
      [\<lparr>row_id = 1, row_date = ''2024-06-01'', row_weight = 180, row_ran = False,
        row_distance = None, row_duration = None, row_notes = None,
        row_created_at = ''2024-06-15 10:00:00''\<rparr>], seq = 1\<rparr>"

definition log_b :: database where
  "log_b = Some \<lparr>rows =
      [\<lparr>row_id = 2, row_date = ''2024-06-01'', row_weight = 179, row_ran = True,
        row_distance = Some 3, row_duration = Some 28, row_notes = Some ''easy run'',
        row_created_at = ''2024-06-16 09:30:00''\<rparr>], seq = 2\<rparr>"

definition log_c :: database where
  "log_c = Some \<lparr>rows =
      [\<lparr>row_id = 2, row_date = ''2024-06-01'', row_weight = 181, row_ran = False,
        row_distance = None, row_duration = None, row_notes = None,
        row_created_at = ''2024-06-16 09:30:00''\<rparr>], seq = 2\<rparr>"

definition log_d :: database where
  "log_d = Some \<lparr>rows =
      [\<lparr>row_id = 1, row_date = ''2024-06-01'', row_weight = 180, row_ran = False,
        row_distance = None, row_duration = None, row_notes = None,
        row_created_at = ''2024-06-15 10:00:00''\<rparr>,
       \<lparr>row_id = 2, row_date = ''2024-06-02'', row_weight = 1795 / 10, row_ran = True,
        row_distance = Some (31 / 10), row_duration = Some 28, row_notes = None,
        row_created_at = ''2024-06-16 09:30:00''\<rparr>], seq = 2\<rparr>"

text \<open>A table with an entry of five days ago and an entry dated after today.\<close>

definition row_june_10 :: row where
  "row_june_10 =
     \<lparr>row_id = 1, row_date = ''2024-06-10'', row_weight = 180, row_ran = False,
      row_distance = None, row_duration = None, row_notes = None,
      row_created_at = ''2024-06-15 10:00:00''\<rparr>"

definition row_dec_31 :: row where
  "row_dec_31 =
     \<lparr>row_id = 2, row_date = ''2024-12-31'', row_weight = 170, row_ran = True,
      row_distance = Some 5, row_duration = Some 50, row_notes = None,
      row_created_at = ''2024-06-15 10:00:00''\<rparr>"

definition future_log :: database where
  "future_log = Some \<lparr>rows = [row_june_10, row_dec_31], seq = 2\<rparr>"

text \<open>The tables after entries for 2024-01-01, 2024-01-03 and 2024-01-02, in that order.\<close>

definition jan_row :: "int \<Rightarrow> string \<Rightarrow> row" where
  "jan_row i d =
     \<lparr>row_id = i, row_date = d, row_weight = 180, row_ran = False,
      row_distance = None, row_duration = None, row_notes = None,
      row_created_at = ''2024-06-15 10:00:00''\<rparr>"

definition jan_1 :: database where
  "jan_1 = Some \<lparr>rows = [jan_row 1 ''2024-01-01''], seq = 1\<rparr>"

definition jan_2 :: database where
  "jan_2 = Some \<lparr>rows = [jan_row 1 ''2024-01-01'', jan_row 2 ''2024-01-03''], seq = 2\<rparr>"

definition jan_3 :: database where
  "jan_3 = Some \<lparr>rows =
     [jan_row 1 ''2024-01-01'', jan_row 2 ''2024-01-03'', jan_row 3 ''2024-01-02''], seq = 3\<rparr>"

section \<open>Facts about the statements\<close>


lemma add_entry_True:
  assumes "add_entry w db d wt r di du n = Inr (True, out, db')"
  shows "\<exists>t. db = Some t \<and> out = [] \<and> open_error w = None \<and> exec_error w = None \<and>
           db' = Some \<lparr>rows = filter (\<lambda>x. row_date x \<noteq> d) (rows t) @
                      [\<lparr>row_id = max_rowid t + 1, row_date = d, row_weight = wt,
                        row_ran = r, row_distance = di, row_duration = du,
                        row_notes = n, row_created_at = current_timestamp w\<rparr>],
                    seq = max_rowid t + 1\<rparr>"
  using assms
  by (auto simp: add_entry_def insert_or_replace_def open_table_def
           split: option.splits sum.splits if_splits py_exception.splits)





lemma records_for_added:
  assumes "add_entry w db d wt r di du n = Inr (True, out, db')"
  shows "\<exists>i. records_for db' d =
           [\<lparr>row_id = i, row_date = d, row_weight = wt, row_ran = r, row_distance = di,
             row_duration = du, row_notes = n, row_created_at = current_timestamp w\<rparr>]"
  using add_entry_True [OF assms] by (auto simp: records_for_def)

lemma first_entry:
  "add_entry june_15 (Some empty_log) ''2024-06-01'' 180 False None None None
     = Inr (True, [], log_a)"
  by code_simp

lemma second_entry:
  "add_entry june_16 log_a ''2024-06-01'' 179 True (Some 3) (Some 28) (Some ''easy run'')
     = Inr (True, [], log_b)"
  by code_simp

lemma next_day_entry:
  "add_entry june_16 log_a ''2024-06-02'' (1795 / 10) True (Some (31 / 10)) (Some 28) None
     = Inr (True, [], log_d)"
  by code_simp

lemma limit_desc_sorted:
  "sorted_wrt (\<lambda>a b. b \<le> a) (map row_date (sql_limit n (order_by_date_desc rs)))"
proof -
  let ?s = "sort_key row_date rs"
  have asc: "sorted (map row_date ?s)"
    by (rule sorted_sort_key)
  have "sorted (rev (map row_date (sql_limit n (rev ?s))))"
  proof (cases "n < 0")
    case True
    then show ?thesis
      using asc by (simp add: sql_limit_def rev_map)
  next
    case False
    have "rev (map row_date (take (nat n) (rev ?s)))
            = drop (length ?s - nat n) (map row_date ?s)"
      by (simp add: rev_map rev_take drop_map)
    with False asc show ?thesis
      by (simp add: sql_limit_def sorted_wrt_drop)
  qed
  then show ?thesis
    by (simp only: order_by_date_desc_def sorted_wrt_rev)
qed

lemma limit_length:
  "0 \<le> n \<Longrightarrow> int (length (sql_limit n xs)) \<le> n"
  by (simp add: sql_limit_def)

lemma limit_subset:
  "set (sql_limit n xs) \<subseteq> set xs"
  by (auto simp: sql_limit_def dest: in_set_takeD)

lemma recent_entries_general:
  assumes "open_table w db = Inr t" and "exec_error w = None" and "fits_int64 n"
  shows "\<exists>es. get_recent_entries w db n = Inr es \<and>
           (0 \<le> n \<longrightarrow> int (length es) \<le> n) \<and>
           sorted_wrt (\<lambda>a b. b \<le> a) (map fst es) \<and>
           set es \<subseteq> entry_of ` set (rows t) \<and>
           (rows t = [] \<longrightarrow> es = [])"
proof -
  let ?es = "map entry_of (sql_limit n (order_by_date_desc (rows t)))"
  have res: "get_recent_entries w db n = Inr ?es"
    using assms by (simp add: get_recent_entries_def)
  have fst_entry: "map fst ?es = map row_date (sql_limit n (order_by_date_desc (rows t)))"
    by (simp add: entry_of_def comp_def)
  have "0 \<le> n \<longrightarrow> int (length ?es) \<le> n"
    using limit_length [of n "order_by_date_desc (rows t)"] by simp
  moreover have "sorted_wrt (\<lambda>a b. b \<le> a) (map fst ?es)"
    unfolding fst_entry by (rule limit_desc_sorted)
  moreover have "set ?es \<subseteq> entry_of ` set (rows t)"
    using limit_subset [of n "order_by_date_desc (rows t)"]
    by (auto simp: order_by_date_desc_def)
  moreover have "rows t = [] \<longrightarrow> ?es = []"
    by (simp add: sql_limit_def order_by_date_desc_def)
  ultimately show ?thesis
    using res by blast
qed

lemma three_entries:
  "add_entry june_15 (Some empty_log) ''2024-01-01'' 180 False None None None
     = Inr (True, [], jan_1) \<and>
   add_entry june_15 jan_1 ''2024-01-03'' 180 False None None None = Inr (True, [], jan_2) \<and>
   add_entry june_15 jan_2 ''2024-01-02'' 180 False None None None = Inr (True, [], jan_3)"
  by code_simp

lemma three_entries_recent:
  "get_recent_entries june_15 jan_3 10
     = Inr [entry_of (jan_row 2 ''2024-01-03''), entry_of (jan_row 3 ''2024-01-02''),
            entry_of (jan_row 1 ''2024-01-01'')]"
  by code_simp







section \<open>The claims\<close>

text \<open>
  C1, the upsert law: after \<^verbatim>\<open>add_entry(d, w1, ...)\<close> and then \<^verbatim>\<open>add_entry(d, w2, ...)\<close>,
  both returning \<^verbatim>\<open>True\<close>, the table holds exactly one row whose \<^verbatim>\<open>date\<close> is \<open>d\<close>, and
  its weight, ran, distance, duration and notes are those of the second call.
\<close>

theorem upsert_law:
  assumes "add_entry w1 db d wt1 r1 di1 du1 n1 = Inr (True, out1, db1)"
      and "add_entry w2 db1 d wt2 r2 di2 du2 n2 = Inr (True, out2, db2)"
  shows "\<exists>rec. records_for db2 d = [rec] \<and> row_weight rec = wt2 \<and> row_ran rec = r2 \<and>
           row_distance rec = di2 \<and> row_duration rec = du2 \<and> row_notes rec = n2"
  using records_for_added [OF assms(2)] by auto

theorem upsert_law_witness:
  "add_entry june_15 (Some empty_log) ''2024-06-01'' 180 False None None None
     = Inr (True, [], log_a) \<and>
   add_entry june_16 log_a ''2024-06-01'' 179 True (Some 3) (Some 28) (Some ''easy run'')
     = Inr (True, [], log_b) \<and>
   (\<exists>rec. records_for log_b ''2024-06-01'' = [rec] \<and> row_weight rec = 179 \<and>
      row_ran rec = True \<and> row_distance rec = Some 3 \<and> row_duration rec = Some 28 \<and>
      row_notes rec = Some ''easy run'')"
  using upsert_law [OF first_entry second_entry] first_entry second_entry by blast

text \<open>
  C3, as the spec states it: when \<^verbatim>\<open>add_entry\<close> is called for a date that already has a
  row, \<^verbatim>\<open>created_at\<close> keeps the value of the first insertion. The code does not do this:
  \<^verbatim>\<open>INSERT OR REPLACE\<close> deletes the old row and inserts a new one, whose \<^verbatim>\<open>created_at\<close>
  is the default again. Here the row of 2024-06-01, first stored on June 15 at 10:00:00,
  is overwritten on June 16 at 09:30:00 and carries the later time afterwards.
\<close>

theorem created_at_kept_counterexample:
  "add_entry june_15 (Some empty_log) ''2024-06-01'' 180 False None None None
     = Inr (True, [], log_a) \<and>
   map row_created_at (records_for log_a ''2024-06-01'') = [''2024-06-15 10:00:00''] \<and>
   add_entry june_16 log_a ''2024-06-01'' 181 False None None None = Inr (True, [], log_c) \<and>
   map row_created_at (records_for log_c ''2024-06-01'') = [''2024-06-16 09:30:00''] \<and>
   map row_created_at (records_for log_c ''2024-06-01'')
     \<noteq> map row_created_at (records_for log_a ''2024-06-01'')"
  by code_simp

text \<open>
  C3, amended: after a call of \<^verbatim>\<open>add_entry\<close> for the date \<open>d\<close> that returns \<^verbatim>\<open>True\<close>,
  the \<^verbatim>\<open>created_at\<close> of the row for \<open>d\<close> is the engine's \<^verbatim>\<open>CURRENT_TIMESTAMP\<close> at
  that call, whether or not \<open>d\<close> had a row before: overwriting refreshes it.
\<close>

theorem created_at_refreshed:
  assumes "add_entry w db d wt r di du n = Inr (True, out, db')"
  shows "map row_created_at (records_for db' d) = [current_timestamp w]"
  using records_for_added [OF assms] by auto

theorem created_at_refreshed_witness:
  "add_entry june_16 log_a ''2024-06-01'' 179 True (Some 3) (Some 28) (Some ''easy run'')
     = Inr (True, [], log_b) \<and>
   current_timestamp june_16 = ''2024-06-16 09:30:00'' \<and>
   map row_created_at (records_for log_b ''2024-06-01'') = [''2024-06-16 09:30:00'']"
proof -
  have ts: "current_timestamp june_16 = ''2024-06-16 09:30:00''"
    by code_simp
  from created_at_refreshed [OF second_entry] second_entry ts show ?thesis
    by simp
qed

text \<open>
  C9, the frame of \<^verbatim>\<open>add_entry\<close>: a call for the date \<open>d\<close> that returns \<^verbatim>\<open>True\<close> leaves
  every row of another date as it was, in all its columns (\<^verbatim>\<open>id\<close> and \<^verbatim>\<open>created_at\<close>
  too); the table afterwards is those rows and the one new row for \<open>d\<close>.
\<close>

theorem add_entry_frame:
  assumes "add_entry w db d wt r di du n = Inr (True, out, db')"
  shows "\<exists>t t' new. db = Some t \<and> db' = Some t' \<and> row_date new = d \<and>
           rows t' = filter (\<lambda>x. row_date x \<noteq> d) (rows t) @ [new] \<and>
           filter (\<lambda>x. row_date x \<noteq> d) (rows t') = filter (\<lambda>x. row_date x \<noteq> d) (rows t) \<and>
           (\<forall>d'. d' \<noteq> d \<longrightarrow> records_for db' d' = records_for db d')"
proof -
  from add_entry_True [OF assms] obtain t where
    db: "db = Some t" and
    db': "db' = Some \<lparr>rows = filter (\<lambda>x. row_date x \<noteq> d) (rows t) @
                      [\<lparr>row_id = max_rowid t + 1, row_date = d, row_weight = wt,
                        row_ran = r, row_distance = di, row_duration = du,
                        row_notes = n, row_created_at = current_timestamp w\<rparr>],
                    seq = max_rowid t + 1\<rparr>"
    by blast
  have keep: "d' \<noteq> d \<Longrightarrow> records_for db' d' = records_for db d'" for d'
    by (auto simp: db db' records_for_def intro: filter_cong)
  show ?thesis
    using keep by (simp add: db db')
qed

theorem add_entry_frame_witness:
  "add_entry june_16 log_a ''2024-06-02'' (1795 / 10) True (Some (31 / 10)) (Some 28) None
     = Inr (True, [], log_d) \<and>
   ''2024-06-01'' \<noteq> ''2024-06-02'' \<and>
   records_for log_d ''2024-06-01'' = records_for log_a ''2024-06-01'' \<and>
   map row_created_at (records_for log_d ''2024-06-01'') = [''2024-06-15 10:00:00'']"
proof -
  have created: "map row_created_at (records_for log_a ''2024-06-01'') = [''2024-06-15 10:00:00'']"
    by code_simp
  from add_entry_frame [OF next_day_entry]
  have "records_for log_d ''2024-06-01'' = records_for log_a ''2024-06-01''"
    by auto
  with created next_day_entry show ?thesis
    by simp
qed

text \<open>
  C8, idempotent initialization: when the table already exists and the storage works,
  \<^verbatim>\<open>init_database\<close> raises nothing and leaves the database, table and rows, as it is; so
  a second call after a first one that returned changes nothing and raises nothing. (The
  columns of the table are the fields of \<open>row\<close>; a database that has the table has that
  schema, before and after.)
\<close>

theorem init_database_idempotent:
  assumes "open_error w = None" and "exec_error w = None"
  shows "init_database w (Some t) = Inr (Some t) \<and>
         (\<forall>w0 db0 db1. init_database w0 db0 = Inr db1 \<longrightarrow> init_database w db1 = Inr db1)"
  using assms
  by (auto simp: init_database_def split: option.splits)

theorem init_database_idempotent_witness:
  "open_error june_16 = None \<and> exec_error june_16 = None \<and>
   init_database june_15 None = Inr (Some empty_log) \<and>
   init_database june_16 (Some empty_log) = Inr (Some empty_log) \<and>
   init_database june_16 log_b = Inr log_b"
proof -
  have ok: "open_error june_16 = None" "exec_error june_16 = None"
    by (simp_all add: june_16_def world_at_def)
  have first: "init_database june_15 None = Inr (Some empty_log)"
    by (simp add: init_database_def june_15_def world_at_def)
  from init_database_idempotent [OF ok] first
  have "init_database june_16 (Some empty_log) = Inr (Some empty_log)"
    by blast
  moreover from init_database_idempotent [OF ok, of "the log_b"]
  have "init_database june_16 log_b = Inr log_b"
    by (simp add: log_b_def)
  ultimately show ?thesis
    using ok first by simp
qed




text \<open>
  C6, as the spec states it: for every limit \<open>n\<close>, \<^verbatim>\<open>get_recent_entries(n)\<close> returns at
  most \<open>n\<close> rows. For a negative \<open>n\<close> the code returns all rows, because a negative
  \<^verbatim>\<open>LIMIT\<close> is no limit: with two rows stored and \<open>n = -1\<close> it returns both.
\<close>

theorem recent_entries_at_most_counterexample:
  "get_recent_entries june_15 future_log (- 1)
     = Inr [entry_of row_dec_31, entry_of row_june_10] \<and>
   \<not> int (length [entry_of row_dec_31, entry_of row_june_10]) \<le> - 1"
  by code_simp

text \<open>
  C6, amended: for every limit \<open>n\<close> with \<open>0 \<le> n < 2^63\<close>, \<^verbatim>\<open>get_recent_entries(n)\<close>
  returns at most \<open>n\<close> rows; for every \<open>n\<close> that fits a signed 64-bit integer the rows
  returned are stored rows in descending order of \<^verbatim>\<open>date\<close>, and none when the table is
  empty. (A negative \<open>n\<close> is no limit.) After entries for 2024-01-01, 2024-01-03 and
  2024-01-02, made in that order, \<^verbatim>\<open>get_recent_entries(10)\<close> returns them as 2024-01-03,
  2024-01-02, 2024-01-01.
\<close>

theorem recent_entries_order_and_bound:
  "(open_table w db = Inr t \<and> exec_error w = None \<and> fits_int64 n \<longrightarrow>
      (\<exists>es. get_recent_entries w db n = Inr es \<and>
         (0 \<le> n \<longrightarrow> int (length es) \<le> n) \<and>
         sorted_wrt (\<lambda>a b. b \<le> a) (map fst es) \<and>
         set es \<subseteq> entry_of ` set (rows t) \<and>
         (rows t = [] \<longrightarrow> es = []))) \<and>
   add_entry june_15 (Some empty_log) ''2024-01-01'' 180 False None None None
     = Inr (True, [], jan_1) \<and>
   add_entry june_15 jan_1 ''2024-01-03'' 180 False None None None = Inr (True, [], jan_2) \<and>
   add_entry june_15 jan_2 ''2024-01-02'' 180 False None None None = Inr (True, [], jan_3) \<and>
   map_sum id (map fst) (get_recent_entries june_15 jan_3 10)
     = Inr [''2024-01-03'', ''2024-01-02'', ''2024-01-01'']"
proof -
  have "map_sum id (map fst) (get_recent_entries june_15 jan_3 10)
          = Inr [''2024-01-03'', ''2024-01-02'', ''2024-01-01'']"
    unfolding three_entries_recent by (simp add: entry_of_def jan_row_def)
  then show ?thesis
    using recent_entries_general [of w db t n] three_entries by blast
qed

theorem recent_entries_order_and_bound_witness:
  "open_table june_15 jan_3 = Inr (the jan_3) \<and> exec_error june_15 = None \<and> fits_int64 2 \<and>
   get_recent_entries june_15 jan_3 2
     = Inr [entry_of (jan_row 2 ''2024-01-03''), entry_of (jan_row 3 ''2024-01-02'')] \<and>
   int (length [entry_of (jan_row 2 ''2024-01-03''), entry_of (jan_row 3 ''2024-01-02'')]) \<le> 2 \<and>
   sorted_wrt (\<lambda>a b. b \<le> a)
     (map fst [entry_of (jan_row 2 ''2024-01-03''), entry_of (jan_row 3 ''2024-01-02'')]) \<and>
   open_table june_15 (Some empty_log) = Inr empty_log \<and> rows empty_log = [] \<and>
   get_recent_entries june_15 (Some empty_log) 2 = Inr []"
proof -
  have pre: "open_table june_15 jan_3 = Inr (the jan_3) \<and> exec_error june_15 = None \<and>
      fits_int64 2"
    by code_simp
  have res: "get_recent_entries june_15 jan_3 2
      = Inr [entry_of (jan_row 2 ''2024-01-03''), entry_of (jan_row 3 ''2024-01-02'')]"
    by code_simp
  have pre0: "open_table june_15 (Some empty_log) = Inr empty_log \<and> exec_error june_15 = None \<and>
      fits_int64 2 \<and> rows empty_log = []"
    by code_simp
  from recent_entries_order_and_bound [of june_15 jan_3 "the jan_3" 2] pre res
  have "int (length [entry_of (jan_row 2 ''2024-01-03''), entry_of (jan_row 3 ''2024-01-02'')]) \<le> 2 \<and>
    sorted_wrt (\<lambda>a b. b \<le> a)
      (map fst [entry_of (jan_row 2 ''2024-01-03''), entry_of (jan_row 3 ''2024-01-02'')])"
    by auto
  moreover from recent_entries_order_and_bound [of june_15 "Some empty_log" empty_log 2] pre0
  have "get_recent_entries june_15 (Some empty_log) 2 = Inr []"
    by auto
  ultimately show ?thesis
    using pre res pre0 by blast
qed










end
